theory Spec2Isabelle
  imports Main "HOL-Library.Sublist"
begin

section \<open>Python primitives used by the ticket cogs\<close>

text \<open>
  Strings are byte lists (UTF-8); the library functions below only inspect ASCII
  characters, so bytes above 127 pass through unchanged. Python integers are \<open>int\<close>.
  Exceptions are values of \<open>error\<close>; a function that may raise returns \<open>error + 'a\<close>.
  The interpreter's limit on the number of digits in \<open>int\<close>/\<open>str\<close> conversions is
  not modelled.
\<close>

datatype error =
    ValueError          \<comment> \<open>\<open>int()\<close> on text that is not an integer literal\<close>
  | FileNotFoundError   \<comment> \<open>\<open>open()\<close> on a missing file\<close>
  | StoreError          \<comment> \<open>any exception of the MongoDB driver (store unreachable)\<close>
  | PlatformError       \<comment> \<open>any exception of a Discord API call\<close>

definition digit_char :: "nat \<Rightarrow> char" where
  "digit_char d = ''0123456789'' ! d"

fun str_nat :: "nat \<Rightarrow> string" where
  "str_nat n = (if n < 10 then [digit_char n] else str_nat (n div 10) @ [digit_char (n mod 10)])"

declare str_nat.simps [simp del]

text \<open>\<open>str(i)\<close> for an integer.\<close>

definition py_str :: "int \<Rightarrow> string" where
  "py_str i = (if i < 0 then CHR ''-'' # str_nat (nat (- i)) else str_nat (nat i))"

definition is_digit :: "char \<Rightarrow> bool" where
  "is_digit c = (c \<in> set ''0123456789'')"

definition digit_val :: "char \<Rightarrow> nat" where
  "digit_val c = of_char c - 48"

definition is_space :: "char \<Rightarrow> bool" where
  "is_space c = (c \<in> set [CHR 0x09, CHR 0x0A, CHR 0x0B, CHR 0x0C, CHR 0x0D,
                            CHR 0x1C, CHR 0x1D, CHR 0x1E, CHR 0x1F, CHR 0x20])"

text \<open>\<open>s.strip()\<close>.\<close>

definition strip :: "string \<Rightarrow> string" where
  "strip s = rev (dropWhile is_space (rev (dropWhile is_space s)))"

text \<open>
  The digits of an integer literal: at least one digit, single underscores allowed
  between digits. \<open>seen\<close> says that the previous character was a digit.
\<close>

fun parse_digits :: "nat \<Rightarrow> bool \<Rightarrow> string \<Rightarrow> nat option" where
  "parse_digits acc seen [] = (if seen then Some acc else None)"
| "parse_digits acc seen (c # cs) =
     (if is_digit c then parse_digits (10 * acc + digit_val c) True cs
      else if c = CHR ''_'' \<and> seen then parse_digits acc False cs
      else None)"

text \<open>
  \<open>int(s)\<close> for a string: surrounding whitespace, an optional sign, decimal digits.
  Only the ASCII digits and the ASCII whitespace are modelled.
\<close>

definition py_int :: "string \<Rightarrow> error + int" where
  "py_int s =
     (case strip s of
        [] \<Rightarrow> Inl ValueError
      | c # cs \<Rightarrow>
          if c = CHR ''-'' then
            (case parse_digits 0 False cs of None \<Rightarrow> Inl ValueError | Some n \<Rightarrow> Inr (- int n))
          else if c = CHR ''+'' then
            (case parse_digits 0 False cs of None \<Rightarrow> Inl ValueError | Some n \<Rightarrow> Inr (int n))
          else
            (case parse_digits 0 False (c # cs) of None \<Rightarrow> Inl ValueError | Some n \<Rightarrow> Inr (int n)))"

text \<open>\<open>s.lower()\<close> on the ASCII letters.\<close>

definition lower_char :: "char \<Rightarrow> char" where
  "lower_char c =
     (case map_of (zip ''ABCDEFGHIJKLMNOPQRSTUVWXYZ'' ''abcdefghijklmnopqrstuvwxyz'') c of
        None \<Rightarrow> c | Some d \<Rightarrow> d)"

definition lower :: "string \<Rightarrow> string" where
  "lower s = map lower_char s"

text \<open>\<open>s.endswith((suf1, suf2, ...))\<close> and \<open>s.startswith(p)\<close>.\<close>

definition endswith :: "string \<Rightarrow> string list \<Rightarrow> bool" where
  "endswith s sufs = list_ex (\<lambda>suf. suffix suf s) sufs"

definition startswith :: "string \<Rightarrow> string \<Rightarrow> bool" where
  "startswith s p = prefix p s"

text \<open>
  \<open>html.escape(s)\<close> with the default \<open>quote=True\<close>: the five replacements, the
  ampersand first. No replacement text contains a character a later one replaces, so
  the chain of \<open>replace\<close> calls is a character-wise substitution.
\<close>

definition escape_char :: "char \<Rightarrow> string" where
  "escape_char c =
     (if c = CHR ''&'' then ''&amp;''
      else if c = CHR ''<'' then ''&lt;''
      else if c = CHR ''>'' then ''&gt;''
      else if c = CHR 0x22 then ''&quot;''
      else if c = CHR 0x27 then ''&#x27;''
      else [c])"

definition html_escape :: "string \<Rightarrow> string" where
  "html_escape s = concat (map escape_char s)"

text \<open>
  A \<open>datetime\<close> and \<open>strftime("%Y-%m-%d %H:%M:%S")\<close>, the year written with four
  digits (the time stamps of the platform and of the clock are later than the year 1000).
  The clock of a call is the pair of \<open>datetime.utcnow()\<close> and
  \<open>int(datetime.utcnow().timestamp())\<close>.
\<close>

record datetime =
  year :: nat
  month :: nat
  day :: nat
  hour :: nat
  minute :: nat
  second :: nat

record clock =
  utcnow :: datetime
  epoch :: int

definition zfill :: "nat \<Rightarrow> string \<Rightarrow> string" where
  "zfill w s = replicate (w - length s) CHR ''0'' @ s"

definition strftime :: "datetime \<Rightarrow> string" where
  "strftime d =
     zfill 4 (str_nat (year d)) @ ''-'' @ zfill 2 (str_nat (month d)) @ ''-'' @
     zfill 2 (str_nat (day d)) @ '' '' @ zfill 2 (str_nat (hour d)) @ '':'' @
     zfill 2 (str_nat (minute d)) @ '':'' @ zfill 2 (str_nat (second d))"

section \<open>Data model\<close>

text \<open>
  The platform objects the cogs read. A role and a member are identified by their id
  (the platform compares and hashes them by id); \<open>role_members\<close> is \<open>role.members\<close>
  (member ids, in the platform's order) and \<open>member_name\<close> is \<open>str(member)\<close>.
\<close>

record role =
  role_id :: int
  role_name :: string
  role_members :: "int list"

record member =
  member_id :: int
  member_name :: string
  member_roles :: "role list"

text \<open>The keys of a permission map: role objects and member objects.\<close>

datatype target = RoleTarget int | MemberTarget int

record overwrite =
  read_messages :: "bool option"
  send_messages :: "bool option"

record embed =
  embed_title :: "string option"
  embed_description :: "string option"
  embed_fields :: "(string \<times> string) list"

record attachment =
  att_filename :: string
  att_url :: string

record message =
  msg_author :: string
  msg_created_at :: datetime
  msg_content :: string
  msg_embeds :: "embed list"
  msg_attachments :: "attachment list"

text \<open>
  A text channel; \<open>chan_history\<close> is what \<open>channel.history(limit=None, oldest_first=True)\<close>
  yields, in the platform's order.
\<close>

record channel =
  chan_id :: int
  chan_name :: string
  chan_topic :: "string option"
  chan_overwrites :: "target \<rightharpoonup> overwrite"
  chan_history :: "message list"

datatype channel_kind = CategoryChannel | OtherChannel

text \<open>
  A guild: \<open>guild_channel_kind\<close> answers \<open>guild.get_channel(id)\<close> for the configured
  category and log channels, \<open>guild_me\<close> is the bot's own member. The default role
  of a guild has the guild's id. The last four fields say which requests of the bot
  the platform accepts (a refused request raises): creating a channel, and, per
  channel id, posting a message, reading the history and deleting the channel.
\<close>

record guild =
  guild_id :: int
  guild_name :: string
  guild_roles :: "role list"
  guild_me :: member
  guild_channel_kind :: "int \<rightharpoonup> channel_kind"
  can_create_channel :: bool
  can_send :: "int \<Rightarrow> bool"
  can_read_history :: "int \<Rightarrow> bool"
  can_delete :: "int \<Rightarrow> bool"

text \<open>A stored transcript document and the MongoDB database both cogs connect to.\<close>

record transcript_doc =
  doc_guild_id :: int
  doc_guild_name :: string
  doc_channel_id :: int
  doc_channel_name :: string
  doc_closed_by_name :: "string option"
  doc_created_at :: datetime
  doc_transcript_html :: string

record mongo =
  reachable :: bool
  counters :: "string \<Rightarrow> string \<rightharpoonup> int"
  collections :: "string \<Rightarrow> transcript_doc list"

text \<open>The observable actions of the close-confirmation handlers.\<close>

datatype event =
    Defer | RenderTranscript | PostLog | SaveTranscript | RemoveFile
  | PrintTraceback | SendNotice | Sleep | DeleteChannel

text \<open>
  The mutable state: the working directory, the module global \<open>mongo_db\<close> (\<open>None\<close>
  when MongoDB is not configured), the ticket channels that exist, the id the platform
  gives the next channel, the messages posted to the log channels (channel id and
  text or file name), and the actions of the close-confirmation handlers in order.
\<close>

record world =
  files :: "string \<rightharpoonup> string"
  mongo_db :: "mongo option"
  ticket_channels :: "channel list"
  next_channel_id :: int
  log_posts :: "(int \<times> string) list"
  trace :: "event list"

subsection \<open>Configuration\<close>

definition ACTIVE_CATEGORY_ID :: int where "ACTIVE_CATEGORY_ID = 1435565165025427516"
definition LOG_CHANNEL_ID :: int where "LOG_CHANNEL_ID = 1286008582151602218"
definition STAFF_ROLE_ID :: int where "STAFF_ROLE_ID = 1101039305390043187"
definition GANG_ROLE_PREFIX :: string where "GANG_ROLE_PREFIX = ''Gang-''"
definition SUPPORT_CATEGORY_ID :: int where "SUPPORT_CATEGORY_ID = 1436013928541851799"
definition SUPPORT_LOG_CHANNEL_ID :: int where "SUPPORT_LOG_CHANNEL_ID = 1436014408571818215"
definition SUPPORT_COLLECTION_NAME :: string where "SUPPORT_COLLECTION_NAME = ''support''"

text \<open>\<open>guild.get_role(id)\<close>.\<close>

definition get_role :: "guild \<Rightarrow> int \<Rightarrow> role option" where
  "get_role g rid = find (\<lambda>r. role_id r = rid) (guild_roles g)"

text \<open>\<open>role in member.roles\<close>: roles compare by id.\<close>

definition has_role :: "member \<Rightarrow> role \<Rightarrow> bool" where
  "has_role u r = (role_id r \<in> set (map role_id (member_roles u)))"

section \<open>Sequential ticket numbers\<close>

text \<open>
  \<open>find_one_and_update({"_id": key}, {"$inc": {"seq": 1}}, upsert=True,
  return_document=True)\<close> on a counter collection: the incremented value, 1 for a
  missing document; raises when the store is unreachable.
\<close>

definition find_one_and_update_inc :: "string \<Rightarrow> string \<Rightarrow> mongo \<Rightarrow> error + (int \<times> mongo)" where
  "find_one_and_update_inc coll key m =
     (if reachable m then
        let seq = (case counters m coll key of None \<Rightarrow> 1 | Some v \<Rightarrow> v + 1)
        in Inr (seq, m\<lparr>counters := (counters m)(coll := (counters m coll)(key \<mapsto> seq))\<rparr>)
      else Inl StoreError)"

text \<open>
  The body shared by \<open>get_next_ticket_number\<close> and \<open>get_next_support_ticket_number\<close>,
  which differ in the counter file, the counter collection and the document id.
\<close>

definition next_number :: "string \<Rightarrow> string \<Rightarrow> string \<Rightarrow> world \<Rightarrow> (error + int) \<times> world" where
  "next_number counter_file coll key w =
     (case mongo_db w of
        None \<Rightarrow>
          (case (case files w counter_file of
                   Some text \<Rightarrow> py_int text
                 | None \<Rightarrow> Inr 0) of
             Inl e \<Rightarrow> (Inl e, w)
           | Inr count \<Rightarrow>
               (Inr (count + 1), w\<lparr>files := (files w)(counter_file \<mapsto> py_str (count + 1))\<rparr>))
      | Some m \<Rightarrow>
          (case find_one_and_update_inc coll key m of
             Inl e \<Rightarrow> (Inl e, w)
           | Inr (seq, m') \<Rightarrow> (Inr seq, w\<lparr>mongo_db := Some m'\<rparr>)))"

definition get_next_ticket_number :: "world \<Rightarrow> (error + int) \<times> world" where
  "get_next_ticket_number = next_number ''ticket_counter.txt'' ''ticket_counters'' ''ticket_number''"

definition get_next_support_ticket_number :: "world \<Rightarrow> (error + int) \<times> world" where
  "get_next_support_ticket_number =
     next_number ''support_ticket_counter.txt'' ''support_ticket_counters'' ''support_ticket_number''"

text \<open>\<open>n\<close> successive calls of an allocator, with the results in call order.\<close>

fun successive :: "(world \<Rightarrow> (error + int) \<times> world) \<Rightarrow> nat \<Rightarrow> world \<Rightarrow> (error + int) list \<times> world" where
  "successive f 0 w = ([], w)"
| "successive f (Suc n) w =
     (case f w of (r, w') \<Rightarrow> (case successive f n w' of (rs, w'') \<Rightarrow> (r # rs, w'')))"

text \<open>The persisted local counter of a scope: the integer in the file, 0 for a missing file.\<close>

definition counter_value :: "string \<Rightarrow> world \<Rightarrow> error + int" where
  "counter_value counter_file w =
     (case files w counter_file of None \<Rightarrow> Inr 0 | Some text \<Rightarrow> py_int text)"

section \<open>Transcripts\<close>

definition nl :: string where
  "nl = [CHR 0x0A]"

text \<open>
  The opening f-string of \<open>create_transcript\<close>, in two parts: the lines before the
  one that carries the generation time, and the whole.
\<close>

definition transcript_preamble :: "string \<Rightarrow> string \<Rightarrow> string" where
  \<open>transcript_preamble name gname =
     ''<!doctype html>'' @ nl @
     ''<html><head><meta charset='utf-8'>'' @ nl @
     ''<title>Transcript - '' @ html_escape name @ ''</title>'' @ nl @
     ''<style>'' @ nl @
     ''body {background:#2f3136;color:#dcddde;font-family:Arial,sans-serif}'' @ nl @
     ''.msg{margin:8px;padding:8px;border-bottom:1px solid #444}'' @ nl @
     ''.author{color:#7289da;font-weight:bold}'' @ nl @
     ''.time{color:#999;font-size:0.85em;margin-left:6px}'' @ nl @
     ''.content{margin-top:4px;white-space:pre-wrap}'' @ nl @
     ''.embed{margin:8px 0;padding:8px;border-left:4px solid #5865f2;background:#2c2f33}'' @ nl @
     ''.embed-title{color:#00b0f4;font-weight:bold}'' @ nl @
     ''img{max-width:400px;border-radius:4px;margin-top:4px}'' @ nl @
     ''</style></head><body>'' @ nl @
     ''<h2>Transcript for #'' @ html_escape name @ ''</h2>'' @ nl @
     ''<p>Server: '' @ html_escape gname @ ''<br>'' @ nl\<close>

definition transcript_header :: "string \<Rightarrow> string \<Rightarrow> datetime \<Rightarrow> string" where
  \<open>transcript_header name gname now =
     transcript_preamble name gname @ ''Generated: '' @ strftime now @ '' UTC</p><hr>'' @ nl\<close>

text \<open>The body of \<open>for field in embed.fields\<close>.\<close>

definition add_field :: "string \<Rightarrow> string \<times> string \<Rightarrow> string" where
  \<open>add_field html_content field =
     html_content @ ''<div><b>'' @ html_escape (fst field) @ '':</b> '' @
       html_escape (snd field) @ ''</div>''\<close>

text \<open>The body of \<open>for embed in msg.embeds\<close>; \<open>if embed.title\<close> holds for a non-empty string.\<close>

definition add_embed :: "string \<Rightarrow> embed \<Rightarrow> string" where
  \<open>add_embed html_content e =
     (let html_content = html_content @ ''<div class="embed">'';
          html_content =
            (case embed_title e of
               None \<Rightarrow> html_content
             | Some t \<Rightarrow>
                 if t \<noteq> [] then html_content @ ''<div class="embed-title">'' @ html_escape t @ ''</div>''
                 else html_content);
          html_content =
            (case embed_description e of
               None \<Rightarrow> html_content
             | Some d \<Rightarrow>
                 if d \<noteq> [] then html_content @ ''<div class="content">'' @ html_escape d @ ''</div>''
                 else html_content);
          html_content = foldl add_field html_content (embed_fields e)
      in html_content @ ''</div>'')\<close>

text \<open>The body of \<open>for attachment in msg.attachments\<close>.\<close>

definition add_attachment :: "string \<Rightarrow> attachment \<Rightarrow> string" where
  \<open>add_attachment html_content a =
     (let fname = html_escape (att_filename a)
      in if endswith (lower fname) [''.png'', ''.jpg'', ''.jpeg'', ''.gif'', ''.webp'']
         then html_content @ ''<img src="'' @ att_url a @ ''" alt="'' @ fname @ ''">''
         else html_content @ ''<a href="'' @ att_url a @ ''">'' @ fname @ ''</a>'')\<close>

text \<open>The body of \<open>for msg in messages\<close> in \<open>create_transcript\<close>.\<close>

definition add_message :: "string \<Rightarrow> message \<Rightarrow> string" where
  \<open>add_message html_content msg =
     (let timestamp = strftime (msg_created_at msg);
          author = html_escape (msg_author msg);
          html_content = html_content @ ''<div class="msg"><span class="author">'' @ author @
                           ''</span><span class="time">['' @ timestamp @ '']</span>'';
          html_content =
            (if msg_content msg \<noteq> []
             then html_content @ ''<div class="content">'' @ html_escape (msg_content msg) @ ''</div>''
             else html_content);
          html_content = foldl add_embed html_content (msg_embeds msg);
          html_content = foldl add_attachment html_content (msg_attachments msg)
      in html_content @ ''</div>'' @ nl)\<close>

text \<open>The value of \<open>html_content\<close> that \<open>create_transcript\<close> writes to the file.\<close>

definition transcript_html :: "guild \<Rightarrow> channel \<Rightarrow> datetime \<Rightarrow> string" where
  \<open>transcript_html g channel now =
     foldl add_message (transcript_header (chan_name channel) (guild_name g) now)
       (chan_history channel) @ ''</body></html>''\<close>


text \<open>The support cog's variant: another header, only author, time and content per message.\<close>

definition support_transcript_preamble :: "string \<Rightarrow> string \<Rightarrow> string" where
  \<open>support_transcript_preamble name gname =
     ''<!doctype html>'' @ nl @
     ''<html><head><meta charset='utf-8'>'' @ nl @
     ''<title>Transcript - '' @ html_escape name @ ''</title>'' @ nl @
     ''<style>'' @ nl @
     ''body {background:#2f3136;color:#dcddde;font-family:Arial,sans-serif}'' @ nl @
     ''.msg{margin:8px;padding:8px;border-bottom:1px solid #444}'' @ nl @
     ''.author{color:#7289da;font-weight:bold}'' @ nl @
     ''.time{color:#999;font-size:0.85em;margin-left:6px}'' @ nl @
     ''.content{margin-top:4px;white-space:pre-wrap}'' @ nl @
     ''</style></head><body>'' @ nl @
     ''<h2>Support Ticket Transcript - '' @ html_escape name @ ''</h2>'' @ nl @
     ''<p>Server: '' @ html_escape gname @ ''<br>'' @ nl\<close>

definition support_transcript_header :: "string \<Rightarrow> string \<Rightarrow> datetime \<Rightarrow> string" where
  \<open>support_transcript_header name gname now =
     support_transcript_preamble name gname @ ''Generated: '' @ strftime now @ '' UTC</p><hr>'' @ nl\<close>

definition add_support_message :: "string \<Rightarrow> message \<Rightarrow> string" where
  \<open>add_support_message html_content msg =
     (let timestamp = strftime (msg_created_at msg);
          author = html_escape (msg_author msg);
          html_content = html_content @ ''<div class='msg'><span class='author'>'' @ author @
                           ''</span><span class='time'>['' @ timestamp @ '']</span>'';
          html_content =
            (if msg_content msg \<noteq> []
             then html_content @ ''<div class='content'>'' @ html_escape (msg_content msg) @ ''</div>''
             else html_content)
      in html_content @ ''</div>'' @ nl)\<close>

definition support_transcript_html :: "guild \<Rightarrow> channel \<Rightarrow> datetime \<Rightarrow> string" where
  \<open>support_transcript_html g channel now =
     foldl add_support_message (support_transcript_header (chan_name channel) (guild_name g) now)
       (chan_history channel) @ ''</body></html>''\<close>


section \<open>Archiving and retrieving transcripts\<close>

text \<open>The replies a handler sends to the interacting user.\<close>

datatype cog = TicketTool | SupportTicket

datatype reply =
    NoPermissionToClose             \<comment> \<open>"You don't have permission to close this ticket."\<close>
  | ConfirmClosePrompt cog int      \<comment> \<open>"Confirm closing this ticket?" with the confirm view for the channel\<close>
  | CategoryNotFound                \<comment> \<open>"... category not found."\<close>
  | TicketCreated int               \<comment> \<open>"Your ticket has been created: <channel>"\<close>
  | CreationFailed                  \<comment> \<open>"Something went wrong ..." / "Failed to create support ticket."\<close>
  | MustHaveGangRole                \<comment> \<open>"You must have a gang role to create a gang ticket."\<close>
  | ModalSent bool                  \<comment> \<open>\<open>send_modal(TicketForm(bot, is_gang_ticket=b))\<close>\<close>
  | MongoNotConfigured              \<comment> \<open>"MongoDB not configured."\<close>
  | NoTranscriptFound string        \<comment> \<open>"No transcript found for `<channel name>`."\<close>
  | TranscriptRetrieved string string  \<comment> \<open>the embed naming the channel, with the stored HTML as file\<close>
  | FetchError                      \<comment> \<open>"Error fetching transcript."\<close>

text \<open>
  \<open>insert_one\<close> appends to the collection and raises when the store is unreachable;
  \<open>find_one({"channel_name": name})\<close> yields the first matching document.
\<close>

definition insert_one :: "string \<Rightarrow> transcript_doc \<Rightarrow> mongo \<Rightarrow> error + mongo" where
  "insert_one coll doc m =
     (if reachable m then Inr (m\<lparr>collections := (collections m)(coll := collections m coll @ [doc])\<rparr>)
      else Inl StoreError)"

definition find_one :: "string \<Rightarrow> string \<Rightarrow> mongo \<Rightarrow> error + transcript_doc option" where
  "find_one coll name m =
     (if reachable m then Inr (find (\<lambda>d. doc_channel_name d = name) (collections m coll))
      else Inl StoreError)"

text \<open>
  \<open>save_transcript_to_mongo\<close> and \<open>save_support_transcript_to_mongo\<close> have the same
  body; they differ in the collection: \<open>MONGO_COLLECTION_NAME\<close> of the ticket cog is
  read from the environment (default \<open>transcripts\<close>) and is a parameter here, that of
  the support cog is the constant \<open>support\<close>. An exception of \<open>insert_one\<close> is
  printed and swallowed.
\<close>

definition save_transcript_to_mongo ::
    "string \<Rightarrow> guild \<Rightarrow> channel \<Rightarrow> string \<Rightarrow> member \<Rightarrow> clock \<Rightarrow> world \<Rightarrow> world" where
  "save_transcript_to_mongo coll g channel transcript_html_text closed_by clk w =
     (case mongo_db w of
        None \<Rightarrow> w
      | Some m \<Rightarrow>
          let doc = \<lparr>doc_guild_id = guild_id g, doc_guild_name = guild_name g,
                     doc_channel_id = chan_id channel, doc_channel_name = chan_name channel,
                     doc_closed_by_name = Some (member_name closed_by),
                     doc_created_at = utcnow clk,
                     doc_transcript_html = transcript_html_text\<rparr>
          in (case insert_one coll doc m of
                Inr m' \<Rightarrow> w\<lparr>mongo_db := Some m'\<rparr>
              | Inl e \<Rightarrow> w))"

definition save_support_transcript_to_mongo ::
    "guild \<Rightarrow> channel \<Rightarrow> string \<Rightarrow> member \<Rightarrow> clock \<Rightarrow> world \<Rightarrow> world" where
  "save_support_transcript_to_mongo = save_transcript_to_mongo SUPPORT_COLLECTION_NAME"

text \<open>
  \<open>TicketTool.backup_ticket\<close>, the only retrieval command of the bot: looks for
  \<open>ticket-<n>\<close>, then for \<open>gang-ticket-<n>\<close>, in the ticket cog's collection. The
  temporary file it writes is removed before it returns.
\<close>

definition backup_ticket :: "string \<Rightarrow> string \<Rightarrow> world \<Rightarrow> reply \<times> world" where
  "backup_ticket coll ticket_number w =
     (case mongo_db w of
        None \<Rightarrow> (MongoNotConfigured, w)
      | Some m \<Rightarrow>
          (case find_one coll (''ticket-'' @ ticket_number) m of
             Inl e \<Rightarrow> (FetchError, w)
           | Inr (Some doc) \<Rightarrow>
               (TranscriptRetrieved (''ticket-'' @ ticket_number) (doc_transcript_html doc),
                w\<lparr>files := (files w)((''ticket-'' @ ticket_number @ ''_backup.html'') := None)\<rparr>)
           | Inr None \<Rightarrow>
               (case find_one coll (''gang-ticket-'' @ ticket_number) m of
                  Inl e \<Rightarrow> (FetchError, w)
                | Inr None \<Rightarrow> (NoTranscriptFound (''gang-ticket-'' @ ticket_number), w)
                | Inr (Some doc) \<Rightarrow>
                    (TranscriptRetrieved (''gang-ticket-'' @ ticket_number) (doc_transcript_html doc),
                     w\<lparr>files := (files w)((''gang-ticket-'' @ ticket_number @ ''_backup.html'') := None)\<rparr>))))"

section \<open>Closing a ticket\<close>

text \<open>\<open>staff_role and staff_role in user.roles\<close>.\<close>

definition holds_staff_role :: "guild \<Rightarrow> member \<Rightarrow> bool" where
  "holds_staff_role g user =
     (case get_role g STAFF_ROLE_ID of None \<Rightarrow> False | Some staff_role \<Rightarrow> has_role user staff_role)"

text \<open>
  \<open>CloseTicketView.close_ticket\<close> and \<open>CloseSupportView.close_ticket\<close>: the same test,
  the confirm view of the respective cog. Neither touches the state.
\<close>

definition close_ticket :: "cog \<Rightarrow> guild \<Rightarrow> channel \<Rightarrow> member \<Rightarrow> world \<Rightarrow> reply \<times> world" where
  "close_ticket c g channel user w =
     (let creator_id = chan_topic channel
      in if Some (py_str (member_id user)) \<noteq> creator_id \<and> \<not> holds_staff_role g user
         then (NoPermissionToClose, w)
         else (ConfirmClosePrompt c (chan_id channel), w))"





section \<open>Creating a ticket\<close>

definition read_write :: overwrite where
  "read_write = \<lparr>read_messages = Some True, send_messages = Some True\<rparr>"

definition deny_read :: overwrite where
  "deny_read = \<lparr>read_messages = Some False, send_messages = None\<rparr>"

text \<open>\<open>[r for r in interaction.user.roles if r.name.startswith(GANG_ROLE_PREFIX)]\<close>.\<close>

definition gang_roles :: "member \<Rightarrow> role list" where
  "gang_roles user = filter (\<lambda>r. startswith (role_name r) GANG_ROLE_PREFIX) (member_roles user)"

text \<open>
  The permission map of \<open>create_support_ticket\<close>: the dictionary literal, then the
  staff role when \<open>guild.get_role\<close> finds it.
\<close>

definition support_overwrites :: "guild \<Rightarrow> member \<Rightarrow> target \<rightharpoonup> overwrite" where
  "support_overwrites g user =
     (let overwrites = [RoleTarget (guild_id g) \<mapsto> deny_read,
                        MemberTarget (member_id user) \<mapsto> read_write,
                        MemberTarget (member_id (guild_me g)) \<mapsto> read_write]
      in case get_role g STAFF_ROLE_ID of
           None \<Rightarrow> overwrites
         | Some staff_role \<Rightarrow> overwrites(RoleTarget (role_id staff_role) \<mapsto> read_write))"

text \<open>
  The permission map of \<open>TicketForm.on_submit\<close>: the same, and for a gang ticket the
  members of the first gang role of the requester.
\<close>

definition ticket_overwrites :: "guild \<Rightarrow> member \<Rightarrow> bool \<Rightarrow> target \<rightharpoonup> overwrite" where
  "ticket_overwrites g user is_gang_ticket =
     (let overwrites = [RoleTarget (guild_id g) \<mapsto> deny_read,
                        MemberTarget (member_id user) \<mapsto> read_write,
                        MemberTarget (member_id (guild_me g)) \<mapsto> read_write];
          overwrites = (case get_role g STAFF_ROLE_ID of
                          None \<Rightarrow> overwrites
                        | Some staff_role \<Rightarrow> overwrites(RoleTarget (role_id staff_role) \<mapsto> read_write))
      in if is_gang_ticket then
           (case gang_roles user of
              [] \<Rightarrow> overwrites
            | gang_role # _ \<Rightarrow>
                foldl (\<lambda>ov m. ov(MemberTarget m \<mapsto> read_write)) overwrites (role_members gang_role))
         else overwrites)"

record form =
  title_input :: string
  pov_input :: string
  time_input :: string
  description_input :: string

definition mention_role :: "role \<Rightarrow> string" where
  "mention_role r = ''<@&'' @ py_str (role_id r) @ ''>''"

definition mention_member :: "member \<Rightarrow> string" where
  "mention_member u = ''<@'' @ py_str (member_id u) @ ''>''"

text \<open>The em dash of the notification texts, in UTF-8.\<close>

definition em_dash :: string where
  "em_dash = [CHR 0xE2, CHR 0x80, CHR 0x94]"

definition bot_message :: "guild \<Rightarrow> clock \<Rightarrow> string \<Rightarrow> embed list \<Rightarrow> message" where
  "bot_message g clk text es =
     \<lparr>msg_author = member_name (guild_me g), msg_created_at = utcnow clk, msg_content = text,
      msg_embeds = es, msg_attachments = []\<rparr>"

text \<open>
  \<open>TicketForm.on_submit\<close>. A failed allocation is replaced by the number 1. After the
  channel exists, a refused post leaves it in place and answers with the failure text.
\<close>

definition on_submit :: "guild \<Rightarrow> member \<Rightarrow> bool \<Rightarrow> form \<Rightarrow> clock \<Rightarrow> world \<Rightarrow> reply \<times> world" where
  "on_submit g user is_gang_ticket f clk w =
     (if guild_channel_kind g ACTIVE_CATEGORY_ID \<noteq> Some CategoryChannel then (CategoryNotFound, w)
      else
        case get_next_ticket_number w of (r, w) \<Rightarrow>
        let ticket_number = (case r of Inl e \<Rightarrow> 1 | Inr n \<Rightarrow> n);
            channel_name = (if is_gang_ticket then ''gang-ticket-'' @ py_str ticket_number
                            else ''ticket-'' @ py_str ticket_number);
            overwrites = ticket_overwrites g user is_gang_ticket
        in if \<not> can_create_channel g then (CreationFailed, w)
           else
             let channel = \<lparr>chan_id = next_channel_id w, chan_name = channel_name,
                            chan_topic = Some (py_str (member_id user)),
                            chan_overwrites = overwrites, chan_history = []\<rparr>;
                 w = w\<lparr>next_channel_id := next_channel_id w + 1\<rparr>
             in if \<not> can_send g (chan_id channel)
                then (CreationFailed, w\<lparr>ticket_channels := ticket_channels w @ [channel]\<rparr>)
                else
                  let embed = \<lparr>embed_title = Some ((if is_gang_ticket then ''Gang Ticket'' else ''Ticket'')
                                                   @ '' #'' @ py_str ticket_number),
                               embed_description = None,
                               embed_fields = [(''Title'', title_input f), (''POV'', pov_input f),
                                               (''Time'', time_input f),
                                               (''Explanation'', description_input f)]\<rparr>;
                      posted = [bot_message g clk [] [embed]] @
                               (case get_role g STAFF_ROLE_ID of
                                  None \<Rightarrow> []
                                | Some staff_role \<Rightarrow>
                                    [bot_message g clk
                                       (mention_role staff_role @ '' '' @ em_dash @
                                        '' new ticket created by '' @ mention_member user) []]);
                      w = w\<lparr>ticket_channels :=
                             ticket_channels w @ [channel\<lparr>chan_history := posted\<rparr>]\<rparr>
                  in case guild_channel_kind g LOG_CHANNEL_ID of
                       None \<Rightarrow> (TicketCreated (chan_id channel), w)
                     | Some log_channel \<Rightarrow>
                         if \<not> can_send g LOG_CHANNEL_ID then (CreationFailed, w)
                         else
                           let ticket_type = (if is_gang_ticket then ''Gang Ticket'' else ''Normal Ticket'')
                           in (TicketCreated (chan_id channel),
                               w\<lparr>log_posts := log_posts w @
                                    [(LOG_CHANNEL_ID, ticket_type @ '' **#'' @ py_str ticket_number @
                                        ''** created by **'' @ member_name user @ ''**'')]\<rparr>))"

text \<open>The texts of the instruction embed of a support ticket (the title starts with an emoji).\<close>

definition instruction_title :: string where
  "instruction_title = [CHR 0xF0, CHR 0x9F, CHR 0x93, CHR 0x9D] @ '' Please Explain Your Issue''"

definition instruction_description :: string where
  "instruction_description =
     ''Our support team will attend to you shortly.'' @ nl @
     ''While you wait, please describe your problem in detail below '' @ em_dash @
     '' include any relevant screenshots, time of occurrence, or other info.''"

text \<open>\<open>SupportButton.create_support_ticket\<close>.\<close>

definition create_support_ticket :: "guild \<Rightarrow> member \<Rightarrow> clock \<Rightarrow> world \<Rightarrow> reply \<times> world" where
  "create_support_ticket g user clk w =
     (if guild_channel_kind g SUPPORT_CATEGORY_ID \<noteq> Some CategoryChannel then (CategoryNotFound, w)
      else
        case get_next_support_ticket_number w of (r, w) \<Rightarrow>
        let ticket_number = (case r of Inl e \<Rightarrow> 1 | Inr n \<Rightarrow> n);
            channel_name = ''support-'' @ py_str ticket_number;
            overwrites = support_overwrites g user
        in if \<not> can_create_channel g then (CreationFailed, w)
           else
             let channel = \<lparr>chan_id = next_channel_id w, chan_name = channel_name,
                            chan_topic = Some (py_str (member_id user)),
                            chan_overwrites = overwrites, chan_history = []\<rparr>;
                 w = w\<lparr>next_channel_id := next_channel_id w + 1\<rparr>
             in if \<not> can_send g (chan_id channel)
                then (CreationFailed, w\<lparr>ticket_channels := ticket_channels w @ [channel]\<rparr>)
                else
                  let header_embed = \<lparr>embed_title = Some (''Support Ticket #'' @ py_str ticket_number),
                                      embed_description =
                                        Some (''Ticket opened by **'' @ member_name user @ ''**.''),
                                      embed_fields = []\<rparr>;
                      instruction_embed = \<lparr>embed_title = Some instruction_title,
                                           embed_description = Some instruction_description,
                                           embed_fields = []\<rparr>;
                      posted = [bot_message g clk [] [header_embed],
                                bot_message g clk [] [instruction_embed]] @
                               (case get_role g STAFF_ROLE_ID of
                                  None \<Rightarrow> []
                                | Some staff_role \<Rightarrow>
                                    [bot_message g clk
                                       (mention_role staff_role @ '' '' @ em_dash @
                                        '' new support ticket created by '' @ mention_member user) []]);
                      w = w\<lparr>ticket_channels :=
                             ticket_channels w @ [channel\<lparr>chan_history := posted\<rparr>]\<rparr>
                  in case guild_channel_kind g SUPPORT_LOG_CHANNEL_ID of
                       None \<Rightarrow> (TicketCreated (chan_id channel), w)
                     | Some log_channel \<Rightarrow>
                         if \<not> can_send g SUPPORT_LOG_CHANNEL_ID then (CreationFailed, w)
                         else
                           (TicketCreated (chan_id channel),
                            w\<lparr>log_posts := log_posts w @
                                 [(SUPPORT_LOG_CHANNEL_ID, ''Ticket **#'' @ py_str ticket_number @
                                     ''** created by **'' @ member_name user @ ''**'')]\<rparr>))"

text \<open>The two buttons of \<open>TicketButton\<close>.\<close>

definition create_normal_ticket :: "member \<Rightarrow> world \<Rightarrow> reply \<times> world" where
  "create_normal_ticket user w = (ModalSent False, w)"

definition create_gang_ticket :: "member \<Rightarrow> world \<Rightarrow> reply \<times> world" where
  "create_gang_ticket user w =
     (let user_roles = gang_roles user
      in if user_roles = [] then (MustHaveGangRole, w)
         else (ModalSent True, w))"

text \<open>
  A gang-ticket request from the button to the submitted form: the platform hands the
  submitted modal to \<open>on_submit\<close> of the form the button sent, and only then.
\<close>

definition gang_ticket_request :: "guild \<Rightarrow> member \<Rightarrow> form \<Rightarrow> clock \<Rightarrow> world \<Rightarrow> reply \<times> world" where
  "gang_ticket_request g user f clk w =
     (case create_gang_ticket user w of
        (ModalSent is_gang_ticket, w) \<Rightarrow> on_submit g user is_gang_ticket f clk w
      | (r, w) \<Rightarrow> (r, w))"

section \<open>Observations used in the statements\<close>



text \<open>The transcripts stored in a collection, in insertion order.\<close>

definition stored_html :: "string \<Rightarrow> world \<Rightarrow> string list" where
  "stored_html coll w =
     (case mongo_db w of None \<Rightarrow> [] | Some m \<Rightarrow> map doc_transcript_html (collections m coll))"

section \<open>Example values\<close>

definition example_world :: world where
  "example_world =
     \<lparr>files = Map.empty, mongo_db = None, ticket_channels = [], next_channel_id = 100,
      log_posts = [], trace = []\<rparr>"

definition example_everyone :: role where
  "example_everyone = \<lparr>role_id = 10, role_name = ''@everyone'', role_members = [1, 2, 3, 5, 6, 9]\<rparr>"

definition example_staff_role :: role where
  "example_staff_role = \<lparr>role_id = STAFF_ROLE_ID, role_name = ''Staff'', role_members = [3]\<rparr>"

definition example_gang_alpha :: role where
  "example_gang_alpha = \<lparr>role_id = 501, role_name = ''Gang-Alpha'', role_members = [1, 5]\<rparr>"

definition example_gang_beta :: role where
  "example_gang_beta = \<lparr>role_id = 502, role_name = ''Gang-Beta'', role_members = [1, 6]\<rparr>"

definition example_bot :: member where
  "example_bot = \<lparr>member_id = 9, member_name = ''TicketBot#0001'', member_roles = [example_everyone]\<rparr>"

definition example_creator :: member where
  "example_creator =
     \<lparr>member_id = 1, member_name = ''alice'',
      member_roles = [example_everyone, example_gang_alpha, example_gang_beta]\<rparr>"

definition example_outsider :: member where
  "example_outsider = \<lparr>member_id = 2, member_name = ''bob'', member_roles = [example_everyone]\<rparr>"

definition example_staff :: member where
  "example_staff =
     \<lparr>member_id = 3, member_name = ''carol'', member_roles = [example_everyone, example_staff_role]\<rparr>"

definition example_guild :: guild where
  "example_guild =
     \<lparr>guild_id = 10, guild_name = ''Example'',
      guild_roles = [example_everyone, example_staff_role, example_gang_alpha, example_gang_beta],
      guild_me = example_bot,
      guild_channel_kind = [ACTIVE_CATEGORY_ID \<mapsto> CategoryChannel,
                            SUPPORT_CATEGORY_ID \<mapsto> CategoryChannel,
                            LOG_CHANNEL_ID \<mapsto> OtherChannel],
      can_create_channel = True, can_send = (\<lambda>cid. True),
      can_read_history = (\<lambda>cid. True), can_delete = (\<lambda>cid. True)\<rparr>"

definition example_form :: form where
  "example_form =
     \<lparr>title_input = ''Lost item'', pov_input = ''yes'', time_input = ''18:00'',
      description_input = ''It is gone.''\<rparr>"

definition example_clock :: clock where
  "example_clock =
     \<lparr>utcnow = \<lparr>year = 2025, month = 11, day = 4, hour = 9, minute = 5, second = 7\<rparr>,
      epoch = 1762247107\<rparr>"


definition example_message :: message where
  "example_message =
     \<lparr>msg_author = ''alice'',
      msg_created_at = \<lparr>year = 2025, month = 11, day = 3, hour = 18, minute = 0, second = 42\<rparr>,
      msg_content = ''see <attached>'',
      msg_embeds = [],
      msg_attachments =
        [\<lparr>att_filename = ''a.png'',
          att_url = ''https://cdn.discordapp.com/attachments/100/7/a.png?ex=1&is=2&hm=3&''\<rparr>,
         \<lparr>att_filename = ''log<1>.txt'',
          att_url = ''https://cdn.discordapp.com/attachments/100/8/log1.txt?ex=1&is=2&hm=3&''\<rparr>]\<rparr>"

definition example_channel :: channel where
  "example_channel =
     \<lparr>chan_id = 100, chan_name = ''ticket-1'', chan_topic = Some ''1'',
      chan_overwrites = Map.empty, chan_history = [example_message]\<rparr>"

definition example_support_channel :: channel where
  "example_support_channel =
     \<lparr>chan_id = 200, chan_name = ''support-1'', chan_topic = Some ''1'',
      chan_overwrites = Map.empty, chan_history = [example_message]\<rparr>"

definition example_store :: mongo where
  "example_store = \<lparr>reachable = True, counters = (\<lambda>coll. Map.empty), collections = (\<lambda>coll. [])\<rparr>"

definition example_open_world :: world where
  "example_open_world =
     \<lparr>files = Map.empty, mongo_db = Some example_store,
      ticket_channels = [example_channel, example_support_channel], next_channel_id = 201,
      log_posts = [], trace = []\<rparr>"

definition example_down_world :: world where
  "example_down_world =
     \<lparr>files = Map.empty, mongo_db = Some (example_store\<lparr>reachable := False\<rparr>),
      ticket_channels = [example_channel, example_support_channel], next_channel_id = 201,
      log_posts = [], trace = []\<rparr>"


section \<open>Decimal strings\<close>

lemma lt10_cases:
  "(d::nat) < 10 \<Longrightarrow>
     d = 0 \<or> d = 1 \<or> d = 2 \<or> d = 3 \<or> d = 4 \<or> d = 5 \<or> d = 6 \<or> d = 7 \<or> d = 8 \<or> d = 9"
  by arith

lemma digit_val_digit_char: "d < 10 \<Longrightarrow> digit_val (digit_char d) = d"
  using lt10_cases [of d] by (auto simp: digit_val_def digit_char_def)

lemma is_digit_digit_char: "d < 10 \<Longrightarrow> is_digit (digit_char d)"
  using lt10_cases [of d] by (auto simp: is_digit_def digit_char_def)

lemma digit_char_plain:
  "d < 10 \<Longrightarrow> \<not> is_space (digit_char d) \<and> digit_char d \<noteq> CHR ''-'' \<and> digit_char d \<noteq> CHR ''+''"
  using lt10_cases [of d] by (auto simp: is_space_def digit_char_def)

lemma parse_digits_str_nat:
  "parse_digits acc seen (str_nat n @ cs) = parse_digits (acc * 10 ^ length (str_nat n) + n) True cs"
proof (induction n arbitrary: acc seen cs rule: str_nat.induct)
  case (1 n)
  show ?case
  proof (cases "n < 10")
    case True
    then show ?thesis
      by (simp add: str_nat.simps [of n] is_digit_digit_char digit_val_digit_char mult.commute)
  next
    case False
    have md: "n mod 10 < 10" by simp
    have "parse_digits acc seen (str_nat n @ cs)
        = parse_digits acc seen (str_nat (n div 10) @ (digit_char (n mod 10) # cs))"
      using False by (simp add: str_nat.simps [of n])
    also have "\<dots> = parse_digits (acc * 10 ^ length (str_nat (n div 10)) + n div 10) True
                        (digit_char (n mod 10) # cs)"
      using "1.IH" [OF False] by simp
    also have "\<dots> = parse_digits (acc * 10 ^ length (str_nat n) + n) True cs"
      using False md
      by (simp add: str_nat.simps [of n] is_digit_digit_char digit_val_digit_char algebra_simps)
    finally show ?thesis .
  qed
qed

lemma parse_digits_str_nat0: "parse_digits 0 False (str_nat n) = Some n"
  using parse_digits_str_nat [of 0 False n "[]"] by simp

lemma str_nat_set:
  "set (str_nat n) = (if n < 10 then {digit_char n}
                      else insert (digit_char (n mod 10)) (set (str_nat (n div 10))))"
  by (subst str_nat.simps) simp

lemma str_nat_digits: "c \<in> set (str_nat n) \<Longrightarrow> \<exists>d<10. c = digit_char d"
proof (induction n rule: str_nat.induct)
  case (1 n)
  show ?case
  proof (cases "n < 10")
    case True
    with "1.prems" have "c = digit_char n" by (simp add: str_nat_set [of n])
    with True show ?thesis by blast
  next
    case False
    have md: "n mod 10 < 10" by simp
    from "1.prems" False have "c = digit_char (n mod 10) \<or> c \<in> set (str_nat (n div 10))"
      by (simp add: str_nat_set [of n])
    then show ?thesis
      using "1.IH" [OF False] md by blast
  qed
qed

lemma str_nat_nonempty: "str_nat n \<noteq> []"
  by (subst str_nat.simps) simp

lemma str_nat_cases: "\<exists>c cs. str_nat n = c # cs"
  using str_nat_nonempty [of n] by (simp add: neq_Nil_conv)

lemma strip_no_space:
  assumes "\<forall>c \<in> set s. \<not> is_space c"
  shows "strip s = s"
proof -
  have a: "dropWhile is_space s = s"
    using assms by (cases s) auto
  have "\<forall>c \<in> set (rev s). \<not> is_space c" using assms by simp
  then have b: "dropWhile is_space (rev s) = rev s"
    by (cases "rev s") auto
  show ?thesis by (simp add: strip_def a b)
qed

lemma str_nat_plain:
  assumes "c \<in> set (str_nat n)"
  shows "\<not> is_space c \<and> c \<noteq> CHR ''-'' \<and> c \<noteq> CHR ''+''"
proof -
  obtain d where "d < 10" "c = digit_char d"
    using str_nat_digits [OF assms] by auto
  then show ?thesis
    using digit_char_plain [of d] by simp
qed

lemma strip_str_nat: "strip (str_nat n) = str_nat n"
  by (rule strip_no_space) (simp add: str_nat_plain)

lemma strip_minus_str_nat: "strip (CHR ''-'' # str_nat n) = CHR ''-'' # str_nat n"
proof (rule strip_no_space)
  have "\<not> is_space CHR ''-''" by (simp add: is_space_def)
  then show "\<forall>c\<in>set (CHR ''-'' # str_nat n). \<not> is_space c"
    by (simp add: str_nat_plain)
qed

lemma py_int_str_nat: "py_int (str_nat n) = Inr (int n)"
proof -
  obtain c cs where ccs: "str_nat n = c # cs"
    using str_nat_cases by blast
  have "c \<in> set (str_nat n)" by (simp add: ccs)
  then have plain: "c \<noteq> CHR ''-''" "c \<noteq> CHR ''+''"
    using str_nat_plain [of c n] by simp_all
  have "py_int (str_nat n) =
      (case parse_digits 0 False (c # cs) of None \<Rightarrow> Inl ValueError | Some k \<Rightarrow> Inr (int k))"
    using plain strip_str_nat [of n] by (simp add: py_int_def ccs del: parse_digits.simps)
  also have "\<dots> = Inr (int n)"
    unfolding ccs [symmetric] parse_digits_str_nat0 by simp
  finally show ?thesis .
qed

lemma py_int_minus_str_nat: "py_int (CHR ''-'' # str_nat n) = Inr (- int n)"
  unfolding py_int_def strip_minus_str_nat by (simp add: parse_digits_str_nat0)

text \<open>Reading back what \<open>str\<close> wrote gives the integer: the counter file round-trips.\<close>

lemma py_int_py_str: "py_int (py_str i) = Inr i"
proof (cases "i < 0")
  case True
  then show ?thesis
    by (simp add: py_str_def py_int_minus_str_nat)
next
  case False
  then show ?thesis
    by (simp add: py_str_def py_int_str_nat)
qed

lemma py_str_inj: "py_str a = py_str b \<Longrightarrow> a = b"
proof -
  assume "py_str a = py_str b"
  then have "py_int (py_str a) = py_int (py_str b)" by simp
  then show "a = b" by (simp add: py_int_py_str)
qed

section \<open>The local counter\<close>

lemma next_number_local:
  assumes "mongo_db w = None" "counter_value f w = Inr c"
  shows "next_number f coll key w = (Inr (c + 1), w\<lparr>files := (files w)(f \<mapsto> py_str (c + 1))\<rparr>)"
  using assms by (simp add: next_number_def counter_value_def)

lemma successive_local:
  assumes "mongo_db w = None" "counter_value f w = Inr c"
  shows "successive (next_number f coll key) n w =
           (map (\<lambda>i. Inr (c + 1 + int i)) [0..<n],
            if n = 0 then w else w\<lparr>files := (files w)(f \<mapsto> py_str (c + int n))\<rparr>)"
  using assms
proof (induction n arbitrary: w c)
  case 0
  then show ?case by simp
next
  case (Suc n)
  let ?w' = "w\<lparr>files := (files w)(f \<mapsto> py_str (c + 1))\<rparr>"
  have step: "next_number f coll key w = (Inr (c + 1), ?w')"
    using Suc.prems by (rule next_number_local)
  have m': "mongo_db ?w' = None" using Suc.prems by simp
  have c': "counter_value f ?w' = Inr (c + 1)"
    by (simp add: counter_value_def py_int_py_str)
  have idx: "map (\<lambda>i. Inr (c + 1 + int i) :: error + int) [0..<Suc n]
      = Inr (c + 1) # map (\<lambda>i. Inr (c + 1 + 1 + int i)) [0..<n]"
    by (simp add: upt_rec [of 0 "Suc n"] map_Suc_upt [symmetric] del: upt_Suc)
  have fin: "(if n = 0 then ?w' else ?w'\<lparr>files := (files ?w')(f \<mapsto> py_str (c + 1 + int n))\<rparr>)
      = w\<lparr>files := (files w)(f \<mapsto> py_str (c + int (Suc n)))\<rparr>"
  proof (cases "n = 0")
    case True
    then show ?thesis by simp
  next
    case False
    have "c + 1 + int n = c + int (Suc n)" by simp
    then show ?thesis using False by (simp add: add.assoc)
  qed
  have "successive (next_number f coll key) (Suc n) w =
          (Inr (c + 1) # map (\<lambda>i. Inr (c + 1 + 1 + int i)) [0..<n],
           if n = 0 then ?w' else ?w'\<lparr>files := (files ?w')(f \<mapsto> py_str (c + 1 + int n))\<rparr>)"
    by (simp only: successive.simps step Suc.IH [OF m' c'] prod.case)
  then show ?case
    by (simp only: idx fin nat.simps if_False)
qed

text \<open>
  Claim C2. Without a durable store, a call of \<open>get_next_ticket_number\<close> (and of
  \<open>get_next_support_ticket_number\<close>) reads the persisted counter, a missing file
  counting as 0, returns that value plus one and has written the new value to the file
  when it returns. So \<open>n\<close> successive calls in one scope return the \<open>n\<close> consecutive
  integers \<open>c + 1, ..., c + n\<close> after the persisted value \<open>c\<close>: distinct, strictly
  increasing, without gaps, and the file then holds \<open>c + n\<close>.
\<close>

theorem local_allocator_consecutive:
  assumes "mongo_db w = None"
  shows "(counter_value ''ticket_counter.txt'' w = Inr c \<longrightarrow>
            get_next_ticket_number w =
              (Inr (c + 1), w\<lparr>files := (files w)(''ticket_counter.txt'' \<mapsto> py_str (c + 1))\<rparr>) \<and>
            fst (successive get_next_ticket_number n w) = map (\<lambda>i. Inr (c + 1 + int i)) [0..<n] \<and>
            distinct (fst (successive get_next_ticket_number n w)) \<and>
            counter_value ''ticket_counter.txt'' (snd (successive get_next_ticket_number n w))
              = Inr (c + int n)) \<and>
         (counter_value ''support_ticket_counter.txt'' w = Inr c \<longrightarrow>
            get_next_support_ticket_number w =
              (Inr (c + 1), w\<lparr>files := (files w)(''support_ticket_counter.txt'' \<mapsto> py_str (c + 1))\<rparr>) \<and>
            fst (successive get_next_support_ticket_number n w) = map (\<lambda>i. Inr (c + 1 + int i)) [0..<n] \<and>
            distinct (fst (successive get_next_support_ticket_number n w)) \<and>
            counter_value ''support_ticket_counter.txt'' (snd (successive get_next_support_ticket_number n w))
              = Inr (c + int n))"
proof -
  have gen: "counter_value f w = Inr c \<Longrightarrow>
       next_number f coll key w = (Inr (c + 1), w\<lparr>files := (files w)(f \<mapsto> py_str (c + 1))\<rparr>) \<and>
       fst (successive (next_number f coll key) n w) = map (\<lambda>i. Inr (c + 1 + int i)) [0..<n] \<and>
       distinct (fst (successive (next_number f coll key) n w)) \<and>
       counter_value f (snd (successive (next_number f coll key) n w)) = Inr (c + int n)"
    for f coll key
  proof -
    assume cv: "counter_value f w = Inr c"
    note s = successive_local [OF assms cv, of coll key n]
    have inj: "inj_on (\<lambda>i. Inr (c + 1 + int i) :: error + int) (set [0..<n])"
      by (rule inj_onI) simp
    have d: "distinct (map (\<lambda>i. Inr (c + 1 + int i) :: error + int) [0..<n])"
      using inj by (simp add: distinct_map)
    have fin: "counter_value f (snd (successive (next_number f coll key) n w)) = Inr (c + int n)"
    proof (cases "n = 0")
      case True
      with cv s show ?thesis by simp
    next
      case False
      with s show ?thesis by (simp add: counter_value_def py_int_py_str)
    qed
    show ?thesis
      using next_number_local [OF assms cv] s d fin by simp
  qed
  show ?thesis
    unfolding get_next_ticket_number_def get_next_support_ticket_number_def
    using gen by blast
qed

theorem local_allocator_consecutive_witness:
  "mongo_db example_world = None \<and>
   counter_value ''ticket_counter.txt'' example_world = Inr 0 \<and>
   fst (successive get_next_ticket_number 3 example_world) = [Inr 1, Inr 2, Inr 3] \<and>
   counter_value ''support_ticket_counter.txt'' example_world = Inr 0 \<and>
   fst (successive get_next_support_ticket_number 3 example_world) = [Inr 1, Inr 2, Inr 3]"
proof -
  have m: "mongo_db example_world = None"
    by (simp add: example_world_def)
  have c1: "counter_value ''ticket_counter.txt'' example_world = Inr 0"
    by (simp add: example_world_def counter_value_def)
  have c2: "counter_value ''support_ticket_counter.txt'' example_world = Inr 0"
    by (simp add: example_world_def counter_value_def)
  have u: "[0..<3] = [0, Suc 0, 2]"
    by (simp add: upt_rec)
  show ?thesis
    using local_allocator_consecutive [OF m, of 0 3] m c1 c2 by (simp add: u)
qed

section \<open>Creating and closing: who may close\<close>


lemma next_number_keeps:
  "next_channel_id (snd (next_number f coll key w)) = next_channel_id w \<and>
   ticket_channels (snd (next_number f coll key w)) = ticket_channels w \<and>
   log_posts (snd (next_number f coll key w)) = log_posts w \<and>
   trace (snd (next_number f coll key w)) = trace w"
  by (simp add: next_number_def find_one_and_update_inc_def Let_def
           split: option.splits sum.splits prod.splits)

lemma on_submit_reply:
  assumes "guild_channel_kind g ACTIVE_CATEGORY_ID = Some CategoryChannel"
      and "can_create_channel g"
      and "can_send g (next_channel_id w)"
      and "guild_channel_kind g LOG_CHANNEL_ID = None \<or> can_send g LOG_CHANNEL_ID"
  shows "fst (on_submit g user is_gang f clk w) = TicketCreated (next_channel_id w)"
proof -
  obtain r w' where nn: "get_next_ticket_number w = (r, w')"
    by (cases "get_next_ticket_number w")
  have "next_channel_id w' = next_channel_id w"
    using next_number_keeps [of "''ticket_counter.txt''" "''ticket_counters''" "''ticket_number''" w] nn
    by (simp add: get_next_ticket_number_def)
  then show ?thesis
    using assms nn by (auto simp: on_submit_def Let_def split: option.splits)
qed

lemma example_on_submit_reply:
  "fst (on_submit example_guild example_creator False example_form example_clock example_world)
     = TicketCreated 100"
proof -
  have "fst (on_submit example_guild example_creator False example_form example_clock example_world)
        = TicketCreated (next_channel_id example_world)"
    by (rule on_submit_reply)
       (simp_all add: example_guild_def ACTIVE_CATEGORY_ID_def SUPPORT_CATEGORY_ID_def LOG_CHANNEL_ID_def)
  then show ?thesis by (simp add: example_world_def)
qed

lemma holds_staff_outsider: "\<not> holds_staff_role example_guild example_outsider"
  by (simp add: holds_staff_role_def get_role_def example_guild_def example_outsider_def
        example_everyone_def example_staff_role_def example_gang_alpha_def example_gang_beta_def
        has_role_def STAFF_ROLE_ID_def)

lemma holds_staff_staff: "holds_staff_role example_guild example_staff"
  by (simp add: holds_staff_role_def get_role_def example_guild_def example_staff_def
        example_everyone_def example_staff_role_def example_gang_alpha_def example_gang_beta_def
        has_role_def STAFF_ROLE_ID_def)


lemma on_submit_created:
  assumes "on_submit g user is_gang f clk w0 = (TicketCreated cid, w1)"
  shows "chan_id (last (ticket_channels w1)) = cid \<and>
         chan_topic (last (ticket_channels w1)) = Some (py_str (member_id user)) \<and>
         chan_overwrites (last (ticket_channels w1)) = ticket_overwrites g user is_gang"
  using assms
  by (auto simp: on_submit_def Let_def split: if_splits prod.splits option.splits)

lemma create_support_ticket_created:
  assumes "create_support_ticket g user clk w0 = (TicketCreated cid, w1)"
  shows "chan_id (last (ticket_channels w1)) = cid \<and>
         chan_topic (last (ticket_channels w1)) = Some (py_str (member_id user)) \<and>
         chan_overwrites (last (ticket_channels w1)) = support_overwrites g user"
  using assms
  by (auto simp: create_support_ticket_def Let_def split: if_splits prod.splits option.splits)

text \<open>
  Claim C4. A close request on a ticket channel as \<open>on_submit\<close> or
  \<open>create_support_ticket\<close> created it is accepted exactly when the requester is the
  creator or holds the staff role. Every other requester gets the permission-denied
  reply; no confirmation prompt is sent and the state is returned unchanged.
\<close>

theorem close_request_creator_or_staff:
  assumes "on_submit g creator is_gang f clk w0 = (TicketCreated cid, w1) \<or>
           create_support_ticket g creator clk w0 = (TicketCreated cid, w1)"
  shows "close_ticket c g (last (ticket_channels w1)) requester w =
           (if member_id requester = member_id creator \<or> holds_staff_role g requester
            then (ConfirmClosePrompt c cid, w)
            else (NoPermissionToClose, w))"
proof -
  from assms have ch: "chan_id (last (ticket_channels w1)) = cid \<and>
         chan_topic (last (ticket_channels w1)) = Some (py_str (member_id creator))"
    using on_submit_created create_support_ticket_created by blast
  have "py_str (member_id requester) = py_str (member_id creator)
          \<longleftrightarrow> member_id requester = member_id creator"
    using py_str_inj by auto
  then show ?thesis
    using ch by (simp add: close_ticket_def)
qed

theorem close_request_creator_or_staff_witness:
  "fst (on_submit example_guild example_creator False example_form example_clock example_world)
     = TicketCreated 100 \<and>
   close_ticket TicketTool example_guild
     (last (ticket_channels
        (snd (on_submit example_guild example_creator False example_form example_clock example_world))))
     example_outsider example_world = (NoPermissionToClose, example_world) \<and>
   close_ticket TicketTool example_guild
     (last (ticket_channels
        (snd (on_submit example_guild example_creator False example_form example_clock example_world))))
     example_staff example_world = (ConfirmClosePrompt TicketTool 100, example_world) \<and>
   close_ticket TicketTool example_guild
     (last (ticket_channels
        (snd (on_submit example_guild example_creator False example_form example_clock example_world))))
     example_creator example_world = (ConfirmClosePrompt TicketTool 100, example_world)"
proof -
  let ?w1 = "snd (on_submit example_guild example_creator False example_form example_clock example_world)"
  have made: "on_submit example_guild example_creator False example_form example_clock example_world
                = (TicketCreated 100, ?w1)"
    using example_on_submit_reply by (simp add: prod_eq_iff)
  then have hyp: "on_submit example_guild example_creator False example_form example_clock example_world
                = (TicketCreated 100, ?w1) \<or>
             create_support_ticket example_guild example_creator example_clock example_world
                = (TicketCreated 100, ?w1)"
    by simp
  have ids: "member_id example_outsider \<noteq> member_id example_creator"
            "member_id example_staff \<noteq> member_id example_creator"
    by (simp_all add: example_outsider_def example_creator_def example_staff_def)
  show ?thesis
    using close_request_creator_or_staff [OF hyp, of TicketTool example_outsider example_world]
          close_request_creator_or_staff [OF hyp, of TicketTool example_staff example_world]
          close_request_creator_or_staff [OF hyp, of TicketTool example_creator example_world]
          example_on_submit_reply ids holds_staff_outsider holds_staff_staff
    by simp
qed

text \<open>
  Claim C10. The only data of the ticket that the close request reads is the channel
  topic: when it is absent, or differs from the decimal string of the requester's id,
  the request is accepted exactly when the requester holds the staff role, and denied
  with the state unchanged otherwise. In particular the creator of a ticket whose topic
  was cleared or edited is treated like anyone else.
\<close>

theorem close_decided_by_topic:
  assumes "chan_topic ch \<noteq> Some (py_str (member_id requester))"
  shows "close_ticket c g ch requester w =
           (if holds_staff_role g requester then (ConfirmClosePrompt c (chan_id ch), w)
            else (NoPermissionToClose, w))"
  using assms by (auto simp: close_ticket_def)

theorem close_decided_by_topic_witness:
  "chan_topic (\<lparr>chan_id = 100, chan_name = ''ticket-1'', chan_topic = None,
                chan_overwrites = Map.empty, chan_history = []\<rparr>)
     \<noteq> Some (py_str (member_id example_creator)) \<and>
   close_ticket TicketTool example_guild
     \<lparr>chan_id = 100, chan_name = ''ticket-1'', chan_topic = None,
      chan_overwrites = Map.empty, chan_history = []\<rparr> example_creator example_world
     = (NoPermissionToClose, example_world) \<and>
   close_ticket SupportTicket example_guild
     \<lparr>chan_id = 100, chan_name = ''ticket-1'', chan_topic = None,
      chan_overwrites = Map.empty, chan_history = []\<rparr> example_staff example_world
     = (ConfirmClosePrompt SupportTicket 100, example_world)"
proof -
  let ?ch = "\<lparr>chan_id = 100, chan_name = ''ticket-1'', chan_topic = None,
              chan_overwrites = Map.empty, chan_history = []\<rparr>"
  have t1: "chan_topic ?ch \<noteq> Some (py_str (member_id example_creator))" by simp
  have t2: "chan_topic ?ch \<noteq> Some (py_str (member_id example_staff))" by simp
  have nc: "\<not> holds_staff_role example_guild example_creator"
    by (simp add: holds_staff_role_def get_role_def example_guild_def example_creator_def
          example_everyone_def example_staff_role_def example_gang_alpha_def example_gang_beta_def
          has_role_def STAFF_ROLE_ID_def)
  show ?thesis
    using close_decided_by_topic [OF t1, of TicketTool example_guild example_world]
          close_decided_by_topic [OF t2, of SupportTicket example_guild example_world]
          nc holds_staff_staff
    by simp
qed

section \<open>Gang tickets and grants\<close>

text \<open>
  Claim C6. A gang-ticket request of a requester none of whose roles has a name starting
  with the gang prefix is answered by the button with the denial text; no form is sent,
  so \<open>on_submit\<close> does not run, and the state is unchanged: no permission map, no
  channel, and the counter file and counter document as before.
\<close>

theorem gang_request_without_gang_role:
  assumes "\<forall>r \<in> set (member_roles user). \<not> prefix GANG_ROLE_PREFIX (role_name r)"
  shows "create_gang_ticket user w = (MustHaveGangRole, w) \<and>
         gang_ticket_request g user f clk w = (MustHaveGangRole, w)"
proof -
  have "gang_roles user = []"
    using assms by (simp add: gang_roles_def startswith_def filter_empty_conv)
  then have "create_gang_ticket user w = (MustHaveGangRole, w)"
    by (simp add: create_gang_ticket_def)
  then show ?thesis
    by (simp add: gang_ticket_request_def)
qed

theorem gang_request_without_gang_role_witness:
  "map role_name (member_roles example_outsider) = [''@everyone''] \<and>
   create_gang_ticket example_outsider example_world = (MustHaveGangRole, example_world) \<and>
   gang_ticket_request example_guild example_outsider example_form example_clock example_world
     = (MustHaveGangRole, example_world)"
proof -
  have h: "\<forall>r \<in> set (member_roles example_outsider). \<not> prefix GANG_ROLE_PREFIX (role_name r)"
    by (simp add: example_outsider_def example_everyone_def GANG_ROLE_PREFIX_def)
  show ?thesis
    using gang_request_without_gang_role
            [OF h, of example_world example_guild example_form example_clock]
    by (simp add: example_outsider_def example_everyone_def)
qed










section \<open>Close confirmation\<close>








section \<open>The archive\<close>

lemma find_snoc:
  "find P (xs @ [d]) = (case find P xs of Some x \<Rightarrow> Some x | None \<Rightarrow> if P d then Some d else None)"
  by (induction xs) auto

lemma find_absent: "a \<notin> f ` set xs \<Longrightarrow> find (\<lambda>d. f d = a) xs = None"
  by (induction xs) auto

lemma save_transcript_stored:
  assumes "mongo_db w = Some m" "reachable m"
  shows "\<exists>doc. doc_channel_name doc = chan_name ch \<and> doc_transcript_html doc = html \<and>
           save_transcript_to_mongo coll g ch html u clk w =
             w\<lparr>mongo_db := Some (m\<lparr>collections := (collections m)(coll := collections m coll @ [doc])\<rparr>)\<rparr>"
proof -
  let ?doc = "\<lparr>doc_guild_id = guild_id g, doc_guild_name = guild_name g,
               doc_channel_id = chan_id ch, doc_channel_name = chan_name ch,
               doc_closed_by_name = Some (member_name u), doc_created_at = utcnow clk,
               doc_transcript_html = html\<rparr>"
  have "save_transcript_to_mongo coll g ch html u clk w =
          w\<lparr>mongo_db := Some (m\<lparr>collections := (collections m)(coll := collections m coll @ [?doc])\<rparr>)\<rparr>"
    using assms by (simp add: save_transcript_to_mongo_def insert_one_def Let_def)
  moreover have "doc_channel_name ?doc = chan_name ch" "doc_transcript_html ?doc = html"
    by simp_all
  ultimately show ?thesis by blast
qed

lemma backup_after_save:
  assumes "mongo_db w = Some m" "reachable m"
      and "''ticket-'' @ n \<notin> doc_channel_name ` set (collections m coll)"
      and "chan_name ch = ''ticket-'' @ n \<or>
           (chan_name ch = ''gang-ticket-'' @ n \<and>
            ''gang-ticket-'' @ n \<notin> doc_channel_name ` set (collections m coll))"
  shows "fst (backup_ticket coll n (save_transcript_to_mongo coll g ch html u clk w)) =
           TranscriptRetrieved (chan_name ch) html"
proof -
  obtain doc where doc: "doc_channel_name doc = chan_name ch" "doc_transcript_html doc = html"
      "save_transcript_to_mongo coll g ch html u clk w =
         w\<lparr>mongo_db := Some (m\<lparr>collections := (collections m)(coll := collections m coll @ [doc])\<rparr>)\<rparr>"
    using save_transcript_stored [OF assms(1,2)] by blast
  have f1: "find (\<lambda>d. doc_channel_name d = ''ticket-'' @ n) (collections m coll) = None"
    using assms(3) by (rule find_absent)
  from assms(4) show ?thesis
  proof
    assume nm: "chan_name ch = ''ticket-'' @ n"
    show ?thesis
      using assms(2) doc nm f1
      by (simp add: backup_ticket_def find_one_def find_snoc)
  next
    assume nm: "chan_name ch = ''gang-ticket-'' @ n \<and>
            ''gang-ticket-'' @ n \<notin> doc_channel_name ` set (collections m coll)"
    then have f2: "find (\<lambda>d. doc_channel_name d = ''gang-ticket-'' @ n) (collections m coll) = None"
      by (simp add: find_absent)
    show ?thesis
      using assms(2) doc nm f1 f2
      by (simp add: backup_ticket_def find_one_def find_snoc)
  qed
qed

lemma backup_unknown:
  assumes "mongo_db w = Some m" "reachable m"
      and "''ticket-'' @ n \<notin> doc_channel_name ` set (collections m coll)"
      and "''gang-ticket-'' @ n \<notin> doc_channel_name ` set (collections m coll)"
  shows "backup_ticket coll n w = (NoTranscriptFound (''gang-ticket-'' @ n), w)"
  using assms by (simp add: backup_ticket_def find_one_def find_absent)

lemma backup_ignores_support:
  assumes "mongo_db w = Some m" "reachable m" "chan_name ch = ''support-'' @ k"
  shows "fst (backup_ticket coll n (save_support_transcript_to_mongo g ch html u clk w)) =
         fst (backup_ticket coll n w)"
proof -
  obtain doc where doc: "doc_channel_name doc = chan_name ch"
      "save_transcript_to_mongo SUPPORT_COLLECTION_NAME g ch html u clk w =
         w\<lparr>mongo_db := Some (m\<lparr>collections :=
              (collections m)(SUPPORT_COLLECTION_NAME := collections m SUPPORT_COLLECTION_NAME @ [doc])\<rparr>)\<rparr>"
    using save_transcript_stored [OF assms(1,2)] by blast
  have ne: "doc_channel_name doc \<noteq> ''ticket-'' @ n" "doc_channel_name doc \<noteq> ''gang-ticket-'' @ n"
    using doc(1) assms(3) by simp_all
  show ?thesis
  proof (cases "coll = SUPPORT_COLLECTION_NAME")
    case True
    show ?thesis
      using assms(1,2) doc(2) ne True
      by (simp add: save_support_transcript_to_mongo_def backup_ticket_def find_one_def find_snoc
            split: option.splits)
  next
    case False
    show ?thesis
      using assms(1,2) doc(2) False
      by (simp add: save_support_transcript_to_mongo_def backup_ticket_def find_one_def
            split: option.splits)
  qed
qed

text \<open>
  Claim C7, as the code has it. With the store reachable: the transcript saved for a
  normal ticket is what \<open>backup_ticket\<close> returns for its number when no document named
  \<open>ticket-<n>\<close> was stored before; the transcript saved for a gang ticket is what it
  returns when no document named \<open>ticket-<n>\<close> or \<open>gang-ticket-<n>\<close> was stored
  before; a number for which neither name is stored is answered with not-found. A
  support transcript is saved to the \<open>support\<close> collection, and saving one never
  changes the answer of a retrieval.
\<close>

theorem archive_round_trip_tickets:
  assumes "mongo_db w = Some m" and "reachable m"
  shows "(chan_name ch = ''ticket-'' @ n \<and>
          ''ticket-'' @ n \<notin> doc_channel_name ` set (collections m coll)
            \<longrightarrow> fst (backup_ticket coll n (save_transcript_to_mongo coll g ch html u clk w)) =
                  TranscriptRetrieved (''ticket-'' @ n) html) \<and>
         (chan_name ch = ''gang-ticket-'' @ n \<and>
          ''ticket-'' @ n \<notin> doc_channel_name ` set (collections m coll) \<and>
          ''gang-ticket-'' @ n \<notin> doc_channel_name ` set (collections m coll)
            \<longrightarrow> fst (backup_ticket coll n (save_transcript_to_mongo coll g ch html u clk w)) =
                  TranscriptRetrieved (''gang-ticket-'' @ n) html) \<and>
         (''ticket-'' @ n \<notin> doc_channel_name ` set (collections m coll) \<and>
          ''gang-ticket-'' @ n \<notin> doc_channel_name ` set (collections m coll)
            \<longrightarrow> fst (backup_ticket coll n w) = NoTranscriptFound (''gang-ticket-'' @ n)) \<and>
         (chan_name ch = ''support-'' @ k
            \<longrightarrow> stored_html SUPPORT_COLLECTION_NAME (save_support_transcript_to_mongo g ch html u clk w) =
                  stored_html SUPPORT_COLLECTION_NAME w @ [html] \<and>
                fst (backup_ticket coll n (save_support_transcript_to_mongo g ch html u clk w)) =
                  fst (backup_ticket coll n w))"
proof -
  have a: "chan_name ch = ''ticket-'' @ n \<and>
          ''ticket-'' @ n \<notin> doc_channel_name ` set (collections m coll)
            \<longrightarrow> fst (backup_ticket coll n (save_transcript_to_mongo coll g ch html u clk w)) =
                  TranscriptRetrieved (''ticket-'' @ n) html"
    using backup_after_save [OF assms, of n coll ch g html u clk] by auto
  have b: "chan_name ch = ''gang-ticket-'' @ n \<and>
          ''ticket-'' @ n \<notin> doc_channel_name ` set (collections m coll) \<and>
          ''gang-ticket-'' @ n \<notin> doc_channel_name ` set (collections m coll)
            \<longrightarrow> fst (backup_ticket coll n (save_transcript_to_mongo coll g ch html u clk w)) =
                  TranscriptRetrieved (''gang-ticket-'' @ n) html"
    using backup_after_save [OF assms, of n coll ch g html u clk] by auto
  have c: "''ticket-'' @ n \<notin> doc_channel_name ` set (collections m coll) \<and>
          ''gang-ticket-'' @ n \<notin> doc_channel_name ` set (collections m coll)
            \<longrightarrow> fst (backup_ticket coll n w) = NoTranscriptFound (''gang-ticket-'' @ n)"
    using backup_unknown [OF assms, of n coll] by simp
  have d1: "stored_html SUPPORT_COLLECTION_NAME (save_support_transcript_to_mongo g ch html u clk w) =
                  stored_html SUPPORT_COLLECTION_NAME w @ [html]"
    using assms
    by (simp add: stored_html_def save_support_transcript_to_mongo_def save_transcript_to_mongo_def
          insert_one_def Let_def)
  have d2: "chan_name ch = ''support-'' @ k
            \<longrightarrow> fst (backup_ticket coll n (save_support_transcript_to_mongo g ch html u clk w)) =
                  fst (backup_ticket coll n w)"
    using backup_ignores_support [OF assms] by blast
  show ?thesis
    using a b c d1 d2 by blast
qed

theorem archive_round_trip_tickets_witness:
  "fst (backup_ticket ''transcripts'' ''1''
          (save_transcript_to_mongo ''transcripts'' example_guild example_channel ''<html>saved</html>''
             example_staff example_clock example_open_world))
     = TranscriptRetrieved ''ticket-1'' ''<html>saved</html>'' \<and>
   fst (backup_ticket ''transcripts'' ''1'' example_open_world) = NoTranscriptFound ''gang-ticket-1''"
proof -
  have m: "mongo_db example_open_world = Some example_store"
    by (simp add: example_open_world_def)
  have r: "reachable example_store"
    by (simp add: example_store_def)
  have e: "collections example_store ''transcripts'' = []"
    by (simp add: example_store_def)
  have nm: "chan_name example_channel = ''ticket-'' @ ''1''"
    by (simp add: example_channel_def)
  show ?thesis
    using archive_round_trip_tickets
            [OF m r, of example_channel "''1''" "''transcripts''" example_guild "''<html>saved</html>''"
                example_staff example_clock]
          e nm
    by simp
qed

text \<open>
  A support transcript that was saved is not retrievable: the only retrieval command
  answers not-found for its number, in the default collection and in \<open>support\<close>.
\<close>

theorem support_transcript_not_retrievable:
  "stored_html ''support''
     (save_support_transcript_to_mongo example_guild example_support_channel ''<html>saved</html>''
        example_staff example_clock example_open_world) = [''<html>saved</html>''] \<and>
   fst (backup_ticket ''transcripts'' ''1''
          (save_support_transcript_to_mongo example_guild example_support_channel ''<html>saved</html>''
             example_staff example_clock example_open_world)) = NoTranscriptFound ''gang-ticket-1'' \<and>
   fst (backup_ticket ''support'' ''1''
          (save_support_transcript_to_mongo example_guild example_support_channel ''<html>saved</html>''
             example_staff example_clock example_open_world)) = NoTranscriptFound ''gang-ticket-1''"
  by (simp add: stored_html_def save_support_transcript_to_mongo_def save_transcript_to_mongo_def
        insert_one_def backup_ticket_def find_one_def Let_def SUPPORT_COLLECTION_NAME_def
        example_open_world_def example_store_def example_support_channel_def)

section \<open>The transcript document\<close>

lemma foldl_append_acc:
  assumes "\<And>h x. f h x = h @ f [] x"
  shows "foldl f h xs = h @ concat (map (f []) xs)"
proof (induction xs arbitrary: h)
  case Nil
  then show ?case by simp
next
  case (Cons x xs)
  have "foldl f h (x # xs) = foldl f (f h x) xs" by simp
  also have "\<dots> = f h x @ concat (map (f []) xs)" by (rule Cons.IH)
  also have "\<dots> = h @ f [] x @ concat (map (f []) xs)"
    using assms [of h x] by simp
  finally show ?case by simp
qed

lemma add_field_acc: "add_field h x = h @ add_field [] x"
  by (simp add: add_field_def)

lemma add_attachment_acc: "add_attachment h a = h @ add_attachment [] a"
  by (simp add: add_attachment_def Let_def)

lemma add_embed_acc: "add_embed h e = h @ add_embed [] e"
proof -
  have f: "foldl add_field k (embed_fields e) = k @ concat (map (add_field []) (embed_fields e))" for k
    by (rule foldl_append_acc) (rule add_field_acc)
  show ?thesis
    unfolding add_embed_def Let_def f
    by (simp split: option.splits)
qed

lemma add_message_acc: "add_message h m = h @ add_message [] m"
proof -
  have e: "foldl add_embed k (msg_embeds m) = k @ concat (map (add_embed []) (msg_embeds m))" for k
    by (rule foldl_append_acc) (rule add_embed_acc)
  have a: "foldl add_attachment k (msg_attachments m)
             = k @ concat (map (add_attachment []) (msg_attachments m))" for k
    by (rule foldl_append_acc) (rule add_attachment_acc)
  show ?thesis
    unfolding add_message_def Let_def
    by (simp add: e a)
qed

lemma add_support_message_acc: "add_support_message h m = h @ add_support_message [] m"
  by (simp add: add_support_message_def Let_def)

text \<open>The document is the header, the entries of the history in its order, the closing tags.\<close>

lemma transcript_html_struct:
  "transcript_html g ch now =
     transcript_header (chan_name ch) (guild_name g) now @
     concat (map (add_message []) (chan_history ch)) @ ''</body></html>''"
  unfolding transcript_html_def
  by (simp add: foldl_append_acc [of add_message, OF add_message_acc])

lemma support_transcript_html_struct:
  "support_transcript_html g ch now =
     support_transcript_header (chan_name ch) (guild_name g) now @
     concat (map (add_support_message []) (chan_history ch)) @ ''</body></html>''"
  unfolding support_transcript_html_def
  by (simp add: foldl_append_acc [of add_support_message, OF add_support_message_acc])

text \<open>What \<open>html.escape\<close> returns holds no angle bracket and no quote.\<close>

lemma html_escape_safe:
  "set (html_escape s) \<inter> {CHR ''<'', CHR ''>'', CHR 0x22, CHR 0x27} = {}"
  by (induction s) (auto simp: html_escape_def escape_char_def)

text \<open>
  Claim C8, as the code has it. The rendered document is fixed by the channel name, the
  guild name and the message history except for one place: the header line
  \<open>Generated:\<close> carries the clock of the call. After it come the entries of the
  history, one per message and in the order of the history (oldest first, as the
  platform yields it), and the closing tags. Two renderings of the same history agree
  everywhere but in that time stamp.
\<close>

theorem transcript_fixed_up_to_generation_time:
  "(\<exists>pre. \<forall>now.
      transcript_html g ch now =
        pre @ ''Generated: '' @ strftime now @ '' UTC</p><hr>'' @ nl @
        concat (map (add_message []) (chan_history ch)) @ ''</body></html>'') \<and>
   (\<exists>pre. \<forall>now.
      support_transcript_html g ch now =
        pre @ ''Generated: '' @ strftime now @ '' UTC</p><hr>'' @ nl @
        concat (map (add_support_message []) (chan_history ch)) @ ''</body></html>'')"
proof
  show "\<exists>pre. \<forall>now.
      transcript_html g ch now =
        pre @ ''Generated: '' @ strftime now @ '' UTC</p><hr>'' @ nl @
        concat (map (add_message []) (chan_history ch)) @ ''</body></html>''"
    unfolding transcript_html_struct transcript_header_def
    by (rule exI [of _ "transcript_preamble (chan_name ch) (guild_name g)"]) simp
next
  show "\<exists>pre. \<forall>now.
      support_transcript_html g ch now =
        pre @ ''Generated: '' @ strftime now @ '' UTC</p><hr>'' @ nl @
        concat (map (add_support_message []) (chan_history ch)) @ ''</body></html>''"
    unfolding support_transcript_html_struct support_transcript_header_def
    by (rule exI [of _ "support_transcript_preamble (chan_name ch) (guild_name g)"]) simp
qed

lemma strftime_example:
  "strftime \<lparr>year = 2025, month = 11, day = 4, hour = 9, minute = 5, second = 7\<rparr> = ''2025-11-04 09:05:07''"
  "strftime \<lparr>year = 2025, month = 11, day = 4, hour = 9, minute = 5, second = 8\<rparr> = ''2025-11-04 09:05:08''"
  "strftime \<lparr>year = 2025, month = 11, day = 3, hour = 18, minute = 0, second = 42\<rparr> = ''2025-11-03 18:00:42''"
  by (simp_all add: strftime_def zfill_def str_nat.simps digit_char_def)

text \<open>The same channel rendered one second later is another document.\<close>

theorem transcript_depends_on_clock:
  "transcript_html example_guild example_channel
     \<lparr>year = 2025, month = 11, day = 4, hour = 9, minute = 5, second = 7\<rparr> \<noteq>
   transcript_html example_guild example_channel
     \<lparr>year = 2025, month = 11, day = 4, hour = 9, minute = 5, second = 8\<rparr>"
  unfolding transcript_html_struct transcript_header_def strftime_example
  by simp


theorem transcript_fixed_up_to_generation_time_witness:
  "\<exists>pre. transcript_html example_guild example_channel (utcnow example_clock) =
     pre @ ''Generated: 2025-11-04 09:05:07 UTC</p><hr>'' @ nl @
     add_message [] example_message @ ''</body></html>''"
proof -
  have h: "chan_history example_channel = [example_message]"
    by (simp add: example_channel_def)
  have t: "strftime (utcnow example_clock) = ''2025-11-04 09:05:07''"
    by (simp add: example_clock_def strftime_example)
  from transcript_fixed_up_to_generation_time [of example_guild example_channel]
  obtain pre where "\<forall>now. transcript_html example_guild example_channel now =
        pre @ ''Generated: '' @ strftime now @ '' UTC</p><hr>'' @ nl @
        concat (map (add_message []) (chan_history example_channel)) @ ''</body></html>''"
    by blast
  then have "transcript_html example_guild example_channel (utcnow example_clock) =
        pre @ ''Generated: '' @ strftime (utcnow example_clock) @ '' UTC</p><hr>'' @ nl @
        concat (map (add_message []) (chan_history example_channel)) @ ''</body></html>''"
    by blast
  then show ?thesis
    by (simp add: h t)
qed

section \<open>Escaping in the transcript\<close>

lemma example_entry:
  \<open>add_message [] example_message =
     ''<div class="msg"><span class="author">alice</span><span class="time">[2025-11-03 18:00:42]</span>'' @
     ''<div class="content">see &lt;attached&gt;</div>'' @
     ''<img src="https://cdn.discordapp.com/attachments/100/7/a.png?ex=1&is=2&hm=3&" alt="a.png">'' @
     ''<a href="https://cdn.discordapp.com/attachments/100/8/log1.txt?ex=1&is=2&hm=3&">log&lt;1&gt;.txt</a>'' @
     ''</div>'' @ nl\<close>
  by (simp add: add_message_def add_attachment_def Let_def example_message_def html_escape_def
        escape_char_def strftime_example lower_def lower_char_def endswith_def suffix_to_prefix)

text \<open>
  Claim C9 at a message with two attachments. The author, the content and the file
  names are escaped; the attachment URLs are written into \<open>src\<close> and \<open>href\<close> as they
  are, with their ampersands.
\<close>

theorem attachment_url_not_escaped:
  \<open>transcript_html example_guild example_channel (utcnow example_clock) =
     transcript_header ''ticket-1'' ''Example'' (utcnow example_clock) @
     ''<div class="msg"><span class="author">alice</span><span class="time">[2025-11-03 18:00:42]</span>'' @
     ''<div class="content">see &lt;attached&gt;</div>'' @
     ''<img src="https://cdn.discordapp.com/attachments/100/7/a.png?ex=1&is=2&hm=3&" alt="a.png">'' @
     ''<a href="https://cdn.discordapp.com/attachments/100/8/log1.txt?ex=1&is=2&hm=3&">log&lt;1&gt;.txt</a>'' @
     ''</div>'' @ nl @ ''</body></html>''\<close>
proof -
  have h: "chan_history example_channel = [example_message]" "chan_name example_channel = ''ticket-1''"
    by (simp_all add: example_channel_def)
  have g: "guild_name example_guild = ''Example''"
    by (simp add: example_guild_def)
  show ?thesis
    unfolding transcript_html_struct h g
    by (simp add: example_entry)
qed

section \<open>Allocation failure\<close>

lemma on_submit_channels:
  assumes "guild_channel_kind g ACTIVE_CATEGORY_ID = Some CategoryChannel" "can_create_channel g"
  shows "map chan_name (ticket_channels (snd (on_submit g user is_gang f clk w))) =
           map chan_name (ticket_channels w) @
           [(if is_gang then ''gang-ticket-'' else ''ticket-'') @
            py_str (case fst (get_next_ticket_number w) of Inl e \<Rightarrow> 1 | Inr n \<Rightarrow> n)]"
proof -
  obtain r w' where nn: "get_next_ticket_number w = (r, w')"
    by (cases "get_next_ticket_number w")
  have "ticket_channels w' = ticket_channels w"
    using next_number_keeps [of "''ticket_counter.txt''" "''ticket_counters''" "''ticket_number''" w] nn
    by (simp add: get_next_ticket_number_def)
  then show ?thesis
    using assms nn by (auto simp: on_submit_def Let_def split: option.splits)
qed

lemma create_support_ticket_channels:
  assumes "guild_channel_kind g SUPPORT_CATEGORY_ID = Some CategoryChannel" "can_create_channel g"
  shows "map chan_name (ticket_channels (snd (create_support_ticket g user clk w))) =
           map chan_name (ticket_channels w) @
           [''support-'' @
            py_str (case fst (get_next_support_ticket_number w) of Inl e \<Rightarrow> 1 | Inr n \<Rightarrow> n)]"
proof -
  obtain r w' where nn: "get_next_support_ticket_number w = (r, w')"
    by (cases "get_next_support_ticket_number w")
  have "ticket_channels w' = ticket_channels w"
    using next_number_keeps [of "''support_ticket_counter.txt''" "''support_ticket_counters''"
                                "''support_ticket_number''" w] nn
    by (simp add: get_next_support_ticket_number_def)
  then show ?thesis
    using assms nn by (auto simp: create_support_ticket_def Let_def split: option.splits)
qed

lemma create_support_ticket_reply:
  assumes "guild_channel_kind g SUPPORT_CATEGORY_ID = Some CategoryChannel"
      and "can_create_channel g"
      and "can_send g (next_channel_id w)"
      and "guild_channel_kind g SUPPORT_LOG_CHANNEL_ID = None \<or> can_send g SUPPORT_LOG_CHANNEL_ID"
  shows "fst (create_support_ticket g user clk w) = TicketCreated (next_channel_id w)"
proof -
  obtain r w' where nn: "get_next_support_ticket_number w = (r, w')"
    by (cases "get_next_support_ticket_number w")
  have "next_channel_id w' = next_channel_id w"
    using next_number_keeps [of "''support_ticket_counter.txt''" "''support_ticket_counters''"
                                "''support_ticket_number''" w] nn
    by (simp add: get_next_support_ticket_number_def)
  then show ?thesis
    using assms nn by (auto simp: create_support_ticket_def Let_def split: option.splits)
qed

lemma example_guild_channels:
  "guild_channel_kind example_guild ACTIVE_CATEGORY_ID = Some CategoryChannel"
  "guild_channel_kind example_guild SUPPORT_CATEGORY_ID = Some CategoryChannel"
  "guild_channel_kind example_guild SUPPORT_LOG_CHANNEL_ID = None"
  "can_create_channel example_guild" "can_send example_guild cid"
  by (simp_all add: example_guild_def ACTIVE_CATEGORY_ID_def SUPPORT_CATEGORY_ID_def
        LOG_CHANNEL_ID_def SUPPORT_LOG_CHANNEL_ID_def)

text \<open>On the local path the allocator raises when the counter file holds no integer.\<close>

lemma next_number_corrupt_file:
  assumes "mongo_db w = None" "files w f = Some []"
  shows "next_number f coll key w = (Inl ValueError, w)"
  using assms by (simp add: next_number_def py_int_def strip_def)

text \<open>
  Claim C1 at an unreachable store, with the channels \<open>ticket-1\<close> and
  \<open>support-1\<close> in place: the allocators raise, and both creation handlers go on with
  the number 1, create a second channel of the same name and answer with the success
  text.
\<close>

theorem allocation_failure_falls_back_to_one:
  "fst (get_next_ticket_number example_down_world) = Inl StoreError \<and>
   fst (on_submit example_guild example_outsider False example_form example_clock example_down_world)
     = TicketCreated 201 \<and>
   map chan_name (ticket_channels
     (snd (on_submit example_guild example_outsider False example_form example_clock example_down_world)))
     = [''ticket-1'', ''support-1'', ''ticket-1''] \<and>
   fst (get_next_support_ticket_number example_down_world) = Inl StoreError \<and>
   fst (create_support_ticket example_guild example_outsider example_clock example_down_world)
     = TicketCreated 201 \<and>
   map chan_name (ticket_channels
     (snd (create_support_ticket example_guild example_outsider example_clock example_down_world)))
     = [''ticket-1'', ''support-1'', ''support-1'']"
proof -
  have a: "fst (get_next_ticket_number example_down_world) = Inl StoreError"
    by (simp add: get_next_ticket_number_def next_number_def find_one_and_update_inc_def
          example_down_world_def example_store_def)
  have b: "fst (get_next_support_ticket_number example_down_world) = Inl StoreError"
    by (simp add: get_next_support_ticket_number_def next_number_def find_one_and_update_inc_def
          example_down_world_def example_store_def)
  have one: "py_str 1 = ''1''"
    by (simp add: py_str_def str_nat.simps digit_char_def)
  have w: "next_channel_id example_down_world = 201"
          "map chan_name (ticket_channels example_down_world) = [''ticket-1'', ''support-1'']"
    by (simp_all add: example_down_world_def example_channel_def example_support_channel_def)
  have c: "fst (on_submit example_guild example_outsider False example_form example_clock example_down_world)
            = TicketCreated 201"
    using on_submit_reply [of example_guild example_down_world example_outsider False example_form example_clock]
          example_guild_channels w
    by simp
  have d: "fst (create_support_ticket example_guild example_outsider example_clock example_down_world)
            = TicketCreated 201"
    using create_support_ticket_reply [of example_guild example_down_world example_outsider example_clock]
          example_guild_channels w
    by simp
  have e: "map chan_name (ticket_channels
     (snd (on_submit example_guild example_outsider False example_form example_clock example_down_world)))
     = [''ticket-1'', ''support-1'', ''ticket-1'']"
    using on_submit_channels [of example_guild example_outsider False example_form example_clock
                                 example_down_world]
          example_guild_channels a w one
    by simp
  have f: "map chan_name (ticket_channels
     (snd (create_support_ticket example_guild example_outsider example_clock example_down_world)))
     = [''ticket-1'', ''support-1'', ''support-1'']"
    using create_support_ticket_channels [of example_guild example_outsider example_clock
                                             example_down_world]
          example_guild_channels b w one
    by simp
  show ?thesis
    using a b c d e f by blast
qed

end
